theory Spec2Isabelle
  imports Complex_Main "HOL-Library.Char_ord" "HOL-Library.List_Lexorder"
begin

section \<open>Calorie tracker: data model\<close>

text \<open>
  The program keeps its data in an SQLite database (\<^verbatim>\<open>init_db\<close>). The two tables the
  operations below work on are modelled as lists of rows in insertion (rowid) order.

  Conventions of the embedding:
  \<^item> a column of SQL type \<^verbatim>\<open>REAL\<close> and a Python \<^verbatim>\<open>float\<close> are values of type \<open>real\<close>:
    the arithmetic is the exact one, IEEE rounding of the machine operations is not
    modelled;
  \<^item> a calendar date is its proleptic Gregorian ordinal (\<^verbatim>\<open>date.toordinal()\<close>, day 1 is
    0001-01-01). The program stores \<^verbatim>\<open>date.isoformat()\<close> strings, which are compared
    as text; for the four-digit years of \<^verbatim>\<open>datetime.date\<close> that text order is the order
    of the ordinals;
  \<^item> text is a \<open>string\<close> whose characters are the Unicode code points 0 to 255
    (ISO 8859-1); SQLite's default (binary) collation compares the UTF-8 bytes, which is
    the lexicographic order of the code points;
  \<^item> the columns of table \<^verbatim>\<open>foods\<close> carry the prefix \<open>f_\<close>, those of \<^verbatim>\<open>logs\<close> the
    prefix \<open>l_\<close>.
\<close>

record food =
  f_id :: int
  f_user_id :: int
  f_name :: string
  f_kcal_per_100g :: real
  f_protein_per_100g :: real
  f_carbs_per_100g :: real
  f_fat_per_100g :: real

record log =
  l_id :: int
  l_user_id :: int
  l_entry_date :: int
  l_time :: string
  l_food :: string
  l_weight_g :: real
  l_kcal :: real
  l_protein :: real
  l_carbs :: real
  l_fat :: real
  l_meal :: string

text \<open>
  The database: the rows of the two tables, and for each the largest rowid handed out so
  far (\<^verbatim>\<open>INTEGER PRIMARY KEY AUTOINCREMENT\<close> never reuses a rowid).
\<close>

record db =
  foods :: "food list"
  foods_seq :: int
  logs :: "log list"
  logs_seq :: int

definition init_db :: db where
  "init_db = \<lparr>foods = [], foods_seq = 0, logs = [], logs_seq = 0\<rparr>"

datatype py_error = IndexError | OverflowError

subsection \<open>Lower-casing of names\<close>

text \<open>
  \<^verbatim>\<open>str.lower()\<close> on the code points 0 to 255: the letters A to Z (65 to 90) and the
  capital letters of the upper half (192 to 214 and 216 to 222) move up by 32, every
  other code point stays, the sharp s (223) and the micro sign (181) included.
\<close>

definition lower_char :: "char \<Rightarrow> char" where
  "lower_char c =
     (let n = of_char c :: nat in
      if (65 \<le> n \<and> n \<le> 90) \<or> (192 \<le> n \<and> n \<le> 214) \<or> (216 \<le> n \<and> n \<le> 222)
      then char_of (n + 32) else c)"

definition lower :: "string \<Rightarrow> string" where
  "lower s = map lower_char s"

text \<open>
  The case folding the specification speaks of (\<^verbatim>\<open>str.casefold()\<close>, Unicode full case
  folding), which the code does not call; it is here to compare it with \<open>lower\<close>. On the
  code points 0 to 255 it differs from lower-casing in two places: the sharp s folds to
  the two letters ss, and the micro sign to the Greek letter mu (code point 956). The
  result is a list of code points.
\<close>

definition casefold_char :: "char \<Rightarrow> nat list" where
  "casefold_char c =
     (if c = CHR 0xDF then [115, 115]
      else if c = CHR 0xB5 then [956]
      else [of_char (lower_char c)])"

definition casefold :: "string \<Rightarrow> nat list" where
  "casefold s = concat (map casefold_char s)"

section \<open>Food and log operations\<close>

text \<open>
  \<^verbatim>\<open>add_food\<close>: \<^verbatim>\<open>INSERT OR REPLACE\<close> under \<^verbatim>\<open>UNIQUE(user_id, name)\<close> deletes the row that
  holds the same key, if any, and inserts the new row under a fresh rowid.
\<close>

definition add_food :: "db \<Rightarrow> int \<Rightarrow> string \<Rightarrow> real \<Rightarrow> real \<Rightarrow> real \<Rightarrow> real \<Rightarrow> db" where
  "add_food d user_id nm kc pr cb ft =
     d\<lparr>foods :=
          filter (\<lambda>r. \<not> (f_user_id r = user_id \<and> f_name r = lower nm)) (foods d)
          @ [\<lparr>f_id = foods_seq d + 1, f_user_id = user_id, f_name = lower nm,
               f_kcal_per_100g = kc, f_protein_per_100g = pr,
               f_carbs_per_100g = cb, f_fat_per_100g = ft\<rparr>],
        foods_seq := foods_seq d + 1\<rparr>"

text \<open>A row of the data frame that \<^verbatim>\<open>get_foods\<close> returns (the five selected columns).\<close>

record food_row =
  name :: string
  kcal_per_100g :: real
  protein_per_100g :: real
  carbs_per_100g :: real
  fat_per_100g :: real

definition select_food :: "food \<Rightarrow> food_row" where
  "select_food r =
     \<lparr>name = f_name r, kcal_per_100g = f_kcal_per_100g r,
      protein_per_100g = f_protein_per_100g r, carbs_per_100g = f_carbs_per_100g r,
      fat_per_100g = f_fat_per_100g r\<rparr>"

definition get_foods :: "db \<Rightarrow> int \<Rightarrow> food_row list" where
  "get_foods d user_id =
     sort_key name (map select_food (filter (\<lambda>r. f_user_id r = user_id) (foods d)))"

definition log_food ::
  "db \<Rightarrow> int \<Rightarrow> int \<Rightarrow> string \<Rightarrow> string \<Rightarrow> real \<Rightarrow> real \<Rightarrow> real \<Rightarrow> real \<Rightarrow> real \<Rightarrow> string \<Rightarrow> db"
where
  "log_food d user_id entry_date time_str fd weight_g kc pr cb ft ml =
     d\<lparr>logs := logs d
          @ [\<lparr>l_id = logs_seq d + 1, l_user_id = user_id, l_entry_date = entry_date,
               l_time = time_str, l_food = lower fd, l_weight_g = weight_g,
               l_kcal = kc, l_protein = pr, l_carbs = cb, l_fat = ft, l_meal = ml\<rparr>],
        logs_seq := logs_seq d + 1\<rparr>"

text \<open>
  \<^verbatim>\<open>get_logs_for_date\<close>: the rows of one user and one date, in the order of the table,
  which is the rowid order of \<^verbatim>\<open>ORDER BY id\<close> (\<open>get_logs_for_date_order\<close> below). The
  rows keep the two columns the query fixes (\<open>l_user_id\<close>, \<open>l_entry_date\<close>).
\<close>

definition get_logs_for_date :: "db \<Rightarrow> int \<Rightarrow> int \<Rightarrow> log list" where
  "get_logs_for_date d user_id entry_date =
     filter (\<lambda>e. l_user_id e = user_id \<and> l_entry_date e = entry_date) (logs d)"

definition delete_log :: "db \<Rightarrow> int \<Rightarrow> int \<Rightarrow> db" where
  "delete_log d user_id log_id =
     d\<lparr>logs := filter (\<lambda>e. \<not> (l_user_id e = user_id \<and> l_id e = log_id)) (logs d)\<rparr>"

section \<open>Utility calculations\<close>

definition calc_from_food_row :: "food_row \<Rightarrow> real \<Rightarrow> real \<times> real \<times> real \<times> real" where
  "calc_from_food_row row weight_g =
     (kcal_per_100g row * weight_g / 100,
      protein_per_100g row * weight_g / 100,
      carbs_per_100g row * weight_g / 100,
      fat_per_100g row * weight_g / 100)"

section \<open>Seeding\<close>

definition sample :: "(string \<times> real \<times> real \<times> real \<times> real) list" where
  "sample =
     [(''rice'', 130, 2.7, 28.0, 0.3),
      (''roti'', 120, 3.6, 20.0, 1.0),
      (''chicken'', 165, 31.0, 0.0, 3.6),
      (''egg'', 155, 13.0, 1.1, 11.0),
      (''milk'', 60, 3.2, 5.0, 3.3),
      (''apple'', 52, 0.3, 14.0, 0.2),
      (''banana'', 89, 1.1, 23.0, 0.3),
      (''paneer'', 265, 18.0, 1.2, 20.8),
      (''dal'', 116, 9.0, 20.0, 1.0),
      (''oats'', 389, 17.0, 66.0, 7.0)]"

definition seed_example_foods_for_user :: "db \<Rightarrow> int \<Rightarrow> db" where
  "seed_example_foods_for_user d user_id =
     fold (\<lambda>(nm, kc, pr, cb, ft) d'. add_food d' user_id nm kc pr cb ft) sample d"

text \<open>
  The seeding trigger of the page script: list the foods, seed when the listing is empty,
  list again. Returns the database and the listing the page goes on with.
\<close>

definition ensure_sample_foods :: "db \<Rightarrow> int \<Rightarrow> db \<times> food_row list" where
  "ensure_sample_foods d user_id =
     (let foods_df = get_foods d user_id in
      if foods_df = []
      then (let d' = seed_example_foods_for_user d user_id in (d', get_foods d' user_id))
      else (d, foods_df))"

section \<open>Goal progress\<close>

text \<open>
  The summary of the page script: the remaining calories and the argument of the
  progress bar, from the daily goal of the settings and the day's total.
\<close>

definition remaining :: "real \<Rightarrow> real \<Rightarrow> real" where
  "remaining daily_goal total_kcal = daily_goal - total_kcal"

definition progress :: "real \<Rightarrow> real \<Rightarrow> real" where
  "progress daily_goal total_kcal = min (max (total_kcal / max daily_goal 1) 0.0) 1.0"

section \<open>The Add entry handler\<close>

text \<open>
  The button handler of the page script. \<^verbatim>\<open>foods_df[foods_df['name'] == food_choice].iloc[0]\<close>
  raises \<^verbatim>\<open>IndexError\<close> when no row has the chosen name. The weight comes from a number
  input whose \<^verbatim>\<open>min_value\<close> is 1.0; the handler itself does not look at it. The parameters
  \<open>today\<close> and \<open>now\<close> are \<^verbatim>\<open>date.today()\<close> and the formatted \<^verbatim>\<open>datetime.now()\<close>.
\<close>

definition add_entry ::
  "db \<Rightarrow> int \<Rightarrow> int \<Rightarrow> string \<Rightarrow> string \<Rightarrow> real \<Rightarrow> string \<Rightarrow> py_error + db"
where
  "add_entry d user_id today now food_choice weight ml =
     (case filter (\<lambda>row. name row = food_choice) (get_foods d user_id) of
        [] \<Rightarrow> Inl IndexError
      | row # _ \<Rightarrow>
          (case calc_from_food_row row weight of
             (kc, pr, cb, ft) \<Rightarrow>
               Inr (log_food d user_id today now food_choice weight kc pr cb ft ml)))"

section \<open>Aggregation\<close>

text \<open>The four summed columns of an aggregated row.\<close>

record totals =
  kcal :: real
  protein :: real
  carbs :: real
  fat :: real

definition sum_rows :: "log list \<Rightarrow> totals" where
  "sum_rows es =
     \<lparr>kcal = sum_list (map l_kcal es), protein = sum_list (map l_protein es),
      carbs = sum_list (map l_carbs es), fat = sum_list (map l_fat es)\<rparr>"

definition zero_row :: totals where
  "zero_row = \<lparr>kcal = 0, protein = 0, carbs = 0, fat = 0\<rparr>"

subsection \<open>Per-meal breakdown\<close>

text \<open>
  \<^verbatim>\<open>logs_df.groupby('meal').agg(...)\<close>, computed only when the day's log is not empty:
  one row per meal that occurs, the keys sorted.
\<close>

definition meal_summary :: "log list \<Rightarrow> (string \<times> totals) list option" where
  "meal_summary logs_df =
     (if logs_df \<noteq> []
      then Some (map (\<lambda>m. (m, sum_rows (filter (\<lambda>e. l_meal e = m) logs_df)))
                   (sort (remdups (map l_meal logs_df))))
      else None)"

subsection \<open>History\<close>

text \<open>
  The bounds of the date types: \<^verbatim>\<open>datetime.date\<close> holds the ordinals 1 (0001-01-01) to
  3652059 (9999-12-31), and a \<^verbatim>\<open>timedelta\<close> at most 999999999 days. Subtracting a
  \<^verbatim>\<open>timedelta\<close> from a date raises \<^verbatim>\<open>OverflowError\<close> when the result is no date.
\<close>

definition date_min :: int where "date_min = 1"
definition date_max :: int where "date_max = 3652059"
definition timedelta_max_days :: int where "timedelta_max_days = 999999999"

text \<open>
  \<^verbatim>\<open>pd.date_range(start=start, end=today)\<close> on two dates: every day from the first to the
  second, none when the first is after the second.
\<close>

definition date_range :: "int \<Rightarrow> int \<Rightarrow> int list" where
  "date_range start end = [start..end]"

text \<open>The query of \<^verbatim>\<open>get_history\<close>: totals per date, from \<open>start\<close> on, ordered by date.\<close>

definition history_query :: "db \<Rightarrow> int \<Rightarrow> int \<Rightarrow> (int \<times> totals) list" where
  "history_query d user_id start =
     (let rows = filter (\<lambda>e. l_user_id e = user_id \<and> start \<le> l_entry_date e) (logs d)
      in map (\<lambda>dt. (dt, sum_rows (filter (\<lambda>e. l_entry_date e = dt) rows)))
           (sort (remdups (map l_entry_date rows))))"

text \<open>\<^verbatim>\<open>reindex(idx, fill_value=0)\<close> on a frame whose index is unique.\<close>

definition reindex :: "'k list \<Rightarrow> ('k \<times> totals) list \<Rightarrow> ('k \<times> totals) list" where
  "reindex idx df =
     map (\<lambda>k. case map_of df k of Some s \<Rightarrow> (k, s) | None \<Rightarrow> (k, zero_row)) idx"

definition get_history :: "db \<Rightarrow> int \<Rightarrow> int \<Rightarrow> int \<Rightarrow> py_error + (int \<times> totals) list" where
  "get_history d today user_id days =
     (if timedelta_max_days < \<bar>days - 1\<bar> then Inl OverflowError
      else
        let start = today - (days - 1) in
        if start < date_min \<or> date_max < start then Inl OverflowError
        else
          let df = history_query d user_id start in
          if df = []
          then (let idx = date_range start today in
                Inr (map (\<lambda>dt. (dt, zero_row)) idx))
          else (let idx = date_range start today in
                Inr (reindex idx df)))"

section \<open>Invariants of the tables\<close>

text \<open>
  What the schema guarantees: rowids are unique and never above the sequence, the rows
  lie in rowid order, and \<^verbatim>\<open>UNIQUE(user_id, name)\<close> holds in \<^verbatim>\<open>foods\<close>.
\<close>

definition wf_db :: "db \<Rightarrow> bool" where
  "wf_db d \<longleftrightarrow>
     distinct (map l_id (logs d)) \<and> sorted (map l_id (logs d))
     \<and> list_all (\<lambda>e. l_id e \<le> logs_seq d) (logs d)
     \<and> distinct (map f_id (foods d)) \<and> sorted (map f_id (foods d))
     \<and> list_all (\<lambda>r. f_id r \<le> foods_seq d) (foods d)
     \<and> distinct (map (\<lambda>r. (f_user_id r, f_name r)) (foods d))"

section \<open>An example database\<close>

text \<open>
  A database reached through the operations, used where a statement is checked on
  concrete data: user 1 has the seeded catalog and four log entries, one of them dated
  six days after day 739924 (2026-11-04); user 2 has one entry.
\<close>

definition example_db :: db where
  "example_db =
     log_food
       (log_food
          (log_food
             (log_food
                (log_food (seed_example_foods_for_user init_db 1)
                   1 739922 ''12:30:00'' ''rice'' 200 260 5.4 56 0.6 ''Lunch'')
                1 739924 ''08:00:00'' ''egg'' 50 77.5 6.5 0.55 5.5 ''Breakfast'')
             2 739924 ''09:00:00'' ''milk'' 200 120 6.4 10 6.6 ''Breakfast'')
          1 739924 ''08:10:00'' ''milk'' 100 60 3.2 5 3.3 ''Breakfast'')
       1 739930 ''20:00:00'' ''dal'' 100 116 9 20 1 ''Dinner''"

section \<open>Auxiliary facts\<close>

lemma user_rows_replace:
  "map select_food (filter (\<lambda>r. f_user_id r = u)
       (filter (\<lambda>r. \<not> (f_user_id r = u \<and> f_name r = n)) xs @ [r']))
   = filter (\<lambda>x. name x \<noteq> n) (map select_food (filter (\<lambda>r. f_user_id r = u) xs))
     @ map select_food (filter (\<lambda>r. f_user_id r = u) [r'])"
  by (induction xs) (simp_all add: select_food_def)

lemma user_rows_add_food:
  "map select_food (filter (\<lambda>r. f_user_id r = u) (foods (add_food d u nm kc pr cb ft)))
   = filter (\<lambda>x. name x \<noteq> lower nm)
       (map select_food (filter (\<lambda>r. f_user_id r = u) (foods d)))
     @ [\<lparr>name = lower nm, kcal_per_100g = kc, protein_per_100g = pr,
          carbs_per_100g = cb, fat_per_100g = ft\<rparr>]"
proof -
  have "foods (add_food d u nm kc pr cb ft)
     = filter (\<lambda>r. \<not> (f_user_id r = u \<and> f_name r = lower nm)) (foods d)
          @ [\<lparr>f_id = foods_seq d + 1, f_user_id = u, f_name = lower nm,
               f_kcal_per_100g = kc, f_protein_per_100g = pr,
               f_carbs_per_100g = cb, f_fat_per_100g = ft\<rparr>]"
    by (simp add: add_food_def)
  then show ?thesis
    by (simp only: user_rows_replace) (simp add: select_food_def)
qed

lemma logs_add_food: "logs (add_food d u nm kc pr cb ft) = logs d"
  by (simp add: add_food_def)

lemma logs_fold_add_food:
  "logs (fold (\<lambda>(nm, kc, pr, cb, ft) d'. add_food d' u nm kc pr cb ft) xs d) = logs d"
  by (induction xs arbitrary: d) (auto simp: logs_add_food)

subsection \<open>The operations keep the invariants\<close>

lemma wf_init_db: "wf_db init_db"
  by (simp add: wf_db_def init_db_def)

lemma wf_log_food: "wf_db d \<Longrightarrow> wf_db (log_food d u dt t fd w kc pr cb ft ml)"
  by (fastforce simp: wf_db_def log_food_def list_all_iff sorted_append)

lemma wf_delete_log: "wf_db d \<Longrightarrow> wf_db (delete_log d u i)"
  by (auto simp: wf_db_def delete_log_def list_all_iff distinct_map_filter sorted_filter)

lemma wf_add_food: "wf_db d \<Longrightarrow> wf_db (add_food d u nm kc pr cb ft)"
  by (fastforce simp: wf_db_def add_food_def list_all_iff distinct_map_filter
      sorted_append sorted_filter)

lemma wf_fold_add_food:
  "wf_db d \<Longrightarrow> wf_db (fold (\<lambda>(nm, kc, pr, cb, ft) d'. add_food d' u nm kc pr cb ft) xs d)"
  by (induction xs arbitrary: d) (auto simp: wf_add_food)

lemma wf_seed_example_foods_for_user: "wf_db d \<Longrightarrow> wf_db (seed_example_foods_for_user d u)"
  by (simp add: seed_example_foods_for_user_def wf_fold_add_food)

text \<open>The listing of a day is in rowid order, as \<^verbatim>\<open>ORDER BY id\<close> asks.\<close>

lemma get_logs_for_date_order:
  "wf_db d \<Longrightarrow> sort_key l_id (get_logs_for_date d u dt) = get_logs_for_date d u dt"
  by (simp add: wf_db_def get_logs_for_date_def sorted_filter sort_key_id_if_sorted)

subsection \<open>Deleting by rowid\<close>

lemma filter_absent_id:
  "i \<notin> l_id ` set xs \<Longrightarrow> filter (\<lambda>x. l_user_id x = u \<longrightarrow> l_id x \<noteq> i) xs = xs"
  by (induction xs) auto

lemma filter_remove1_id:
  "distinct (map l_id xs) \<Longrightarrow> e \<in> set xs \<Longrightarrow> l_user_id e = u \<Longrightarrow>
     filter (\<lambda>x. \<not> (l_user_id x = u \<and> l_id x = l_id e)) xs = remove1 e xs"
proof (induction xs)
  case Nil
  then show ?case by simp
next
  case (Cons x xs)
  show ?case
  proof (cases "x = e")
    case True
    with Cons.prems show ?thesis by (simp add: filter_absent_id)
  next
    case False
    with Cons.prems have "e \<in> set xs" "l_id x \<noteq> l_id e" by auto
    with Cons False show ?thesis by simp
  qed
qed

subsection \<open>The example database\<close>

lemma wf_example_db: "wf_db example_db"
  unfolding example_db_def
  by (intro wf_log_food wf_seed_example_foods_for_user wf_init_db)

lemma logs_example_db:
  "logs example_db =
     [\<lparr>l_id = 1, l_user_id = 1, l_entry_date = 739922, l_time = ''12:30:00'',
        l_food = ''rice'', l_weight_g = 200, l_kcal = 260, l_protein = 5.4, l_carbs = 56,
        l_fat = 0.6, l_meal = ''Lunch''\<rparr>,
      \<lparr>l_id = 2, l_user_id = 1, l_entry_date = 739924, l_time = ''08:00:00'',
        l_food = ''egg'', l_weight_g = 50, l_kcal = 77.5, l_protein = 6.5, l_carbs = 0.55,
        l_fat = 5.5, l_meal = ''Breakfast''\<rparr>,
      \<lparr>l_id = 3, l_user_id = 2, l_entry_date = 739924, l_time = ''09:00:00'',
        l_food = ''milk'', l_weight_g = 200, l_kcal = 120, l_protein = 6.4, l_carbs = 10,
        l_fat = 6.6, l_meal = ''Breakfast''\<rparr>,
      \<lparr>l_id = 4, l_user_id = 1, l_entry_date = 739924, l_time = ''08:10:00'',
        l_food = ''milk'', l_weight_g = 100, l_kcal = 60, l_protein = 3.2, l_carbs = 5,
        l_fat = 3.3, l_meal = ''Breakfast''\<rparr>,
      \<lparr>l_id = 5, l_user_id = 1, l_entry_date = 739930, l_time = ''20:00:00'',
        l_food = ''dal'', l_weight_g = 100, l_kcal = 116, l_protein = 9, l_carbs = 20,
        l_fat = 1, l_meal = ''Dinner''\<rparr>]"
  by code_simp

section \<open>Nutrient scaling\<close>

text \<open>
  C3. For every food row with densities (K, P, C, F) and every weight W the scaling
  returns exactly (K*W/100, P*W/100, C*W/100, F*W/100), nothing rounded and nothing
  clamped; the seeded egg row (155, 13.0, 1.1, 11.0) at 50 g gives 77.5 kcal,
  6.5 protein, 0.55 carbs and 5.5 fat. The egg row is the one read back from the seeded
  catalog of a fresh database.
\<close>

theorem calc_from_food_row_scaling:
  "calc_from_food_row
       \<lparr>name = n, kcal_per_100g = K, protein_per_100g = P, carbs_per_100g = C,
        fat_per_100g = F\<rparr> W
     = (K * W / 100, P * W / 100, C * W / 100, F * W / 100)
   \<and> map (\<lambda>row. (row, calc_from_food_row row 50))
       (filter (\<lambda>row. name row = ''egg'')
          (get_foods (seed_example_foods_for_user init_db 1) 1))
     = [(\<lparr>name = ''egg'', kcal_per_100g = 155, protein_per_100g = 13.0,
           carbs_per_100g = 1.1, fat_per_100g = 11.0\<rparr>,
         (77.5, 6.5, 0.55, 5.5))]"
proof (rule conjI)
  show "calc_from_food_row
       \<lparr>name = n, kcal_per_100g = K, protein_per_100g = P, carbs_per_100g = C,
        fat_per_100g = F\<rparr> W
     = (K * W / 100, P * W / 100, C * W / 100, F * W / 100)"
    by (simp add: calc_from_food_row_def)
  show "map (\<lambda>row. (row, calc_from_food_row row 50))
       (filter (\<lambda>row. name row = ''egg'')
          (get_foods (seed_example_foods_for_user init_db 1) 1))
     = [(\<lparr>name = ''egg'', kcal_per_100g = 155, protein_per_100g = 13.0,
           carbs_per_100g = 1.1, fat_per_100g = 11.0\<rparr>,
         (77.5, 6.5, 0.55, 5.5))]"
    by code_simp
qed

section \<open>Goal progress\<close>

text \<open>
  C4. For every total and every daily goal, zero included: the remaining calories are
  goal minus total, unclamped, hence negative exactly when the total exceeds the goal;
  the progress fraction is total / max(goal, 1) clamped to [0, 1], so it lies in [0, 1],
  and its denominator is at least 1, never zero.
\<close>

theorem goal_progress:
  "remaining daily_goal total_kcal = daily_goal - total_kcal
   \<and> (remaining daily_goal total_kcal < 0) = (daily_goal < total_kcal)
   \<and> progress daily_goal total_kcal = min (max (total_kcal / max daily_goal 1) 0) 1
   \<and> 0 \<le> progress daily_goal total_kcal \<and> progress daily_goal total_kcal \<le> 1
   \<and> 1 \<le> max daily_goal 1
   \<and> progress 0 total_kcal = min (max total_kcal 0) 1"
proof -
  have r: "remaining daily_goal total_kcal = daily_goal - total_kcal"
    by (simp add: remaining_def)
  then have neg: "(remaining daily_goal total_kcal < 0) = (daily_goal < total_kcal)"
    by simp
  have p: "progress daily_goal total_kcal = min (max (total_kcal / max daily_goal 1) 0) 1"
    by (simp add: progress_def)
  have lo: "0 \<le> progress daily_goal total_kcal"
    unfolding p by simp
  have hi: "progress daily_goal total_kcal \<le> 1"
    unfolding p by simp
  have z: "progress 0 total_kcal = min (max total_kcal 0) 1"
    by (simp add: progress_def)
  from r neg p lo hi z show ?thesis by simp
qed

section \<open>The food catalog\<close>

lemma old_rows_gone:
  "filter (\<lambda>r. f_user_id r = u \<and> (f_name r = k1 \<or> f_name r = k2))
     (filter (\<lambda>r. f_user_id r = u \<longrightarrow> f_name r \<noteq> k2)
        (filter (\<lambda>r. f_user_id r = u \<longrightarrow> f_name r \<noteq> k1) xs)) = []"
  by (induction xs) simp_all

text \<open>
  C5, as the code has it. Upserting a food definition never fails and the last write wins
  on the name as \<^verbatim>\<open>str.lower()\<close> gives it: after two upserts of one account whose names
  agree once lower-cased, the table holds exactly one row for that key and the listing
  exactly one row of that name, both with the values of the second upsert. When the
  lower-cased names differ, each of the two keeps its own row with its own values.
\<close>

theorem add_food_last_write_wins:
  "(lower n1 = lower n2 \<longrightarrow>
      filter (\<lambda>r. f_user_id r = u \<and> f_name r = lower n2)
        (foods (add_food (add_food d u n1 k1 p1 c1 t1) u n2 k2 p2 c2 t2))
      = [\<lparr>f_id = foods_seq d + 2, f_user_id = u, f_name = lower n2,
           f_kcal_per_100g = k2, f_protein_per_100g = p2,
           f_carbs_per_100g = c2, f_fat_per_100g = t2\<rparr>]
      \<and> filter (\<lambda>row. name row = lower n2)
          (get_foods (add_food (add_food d u n1 k1 p1 c1 t1) u n2 k2 p2 c2 t2) u)
        = [\<lparr>name = lower n2, kcal_per_100g = k2, protein_per_100g = p2,
             carbs_per_100g = c2, fat_per_100g = t2\<rparr>])
   \<and> (lower n1 \<noteq> lower n2 \<longrightarrow>
        filter (\<lambda>r. f_user_id r = u \<and> (f_name r = lower n1 \<or> f_name r = lower n2))
          (foods (add_food (add_food d u n1 k1 p1 c1 t1) u n2 k2 p2 c2 t2))
        = [\<lparr>f_id = foods_seq d + 1, f_user_id = u, f_name = lower n1,
             f_kcal_per_100g = k1, f_protein_per_100g = p1,
             f_carbs_per_100g = c1, f_fat_per_100g = t1\<rparr>,
           \<lparr>f_id = foods_seq d + 2, f_user_id = u, f_name = lower n2,
             f_kcal_per_100g = k2, f_protein_per_100g = p2,
             f_carbs_per_100g = c2, f_fat_per_100g = t2\<rparr>])"
proof (intro conjI impI)
  show "filter (\<lambda>r. f_user_id r = u \<and> f_name r = lower n2)
     (foods (add_food (add_food d u n1 k1 p1 c1 t1) u n2 k2 p2 c2 t2))
   = [\<lparr>f_id = foods_seq d + 2, f_user_id = u, f_name = lower n2,
        f_kcal_per_100g = k2, f_protein_per_100g = p2,
        f_carbs_per_100g = c2, f_fat_per_100g = t2\<rparr>]"
    by (simp add: add_food_def)
  have "filter (\<lambda>row. name row = lower n2)
      (get_foods (add_food (add_food d u n1 k1 p1 c1 t1) u n2 k2 p2 c2 t2) u)
      = sort_key name (filter (\<lambda>row. name row = lower n2)
          (map select_food (filter (\<lambda>r. f_user_id r = u)
             (foods (add_food (add_food d u n1 k1 p1 c1 t1) u n2 k2 p2 c2 t2)))))"
    by (simp only: get_foods_def filter_sort)
  also have "\<dots> = [\<lparr>name = lower n2, kcal_per_100g = k2, protein_per_100g = p2,
         carbs_per_100g = c2, fat_per_100g = t2\<rparr>]"
    by (simp add: user_rows_add_food)
  finally show "filter (\<lambda>row. name row = lower n2)
      (get_foods (add_food (add_food d u n1 k1 p1 c1 t1) u n2 k2 p2 c2 t2) u)
    = [\<lparr>name = lower n2, kcal_per_100g = k2, protein_per_100g = p2,
         carbs_per_100g = c2, fat_per_100g = t2\<rparr>]" .
next
  assume "lower n1 \<noteq> lower n2"
  then show "filter (\<lambda>r. f_user_id r = u \<and> (f_name r = lower n1 \<or> f_name r = lower n2))
          (foods (add_food (add_food d u n1 k1 p1 c1 t1) u n2 k2 p2 c2 t2))
        = [\<lparr>f_id = foods_seq d + 1, f_user_id = u, f_name = lower n1,
             f_kcal_per_100g = k1, f_protein_per_100g = p1,
             f_carbs_per_100g = c1, f_fat_per_100g = t1\<rparr>,
           \<lparr>f_id = foods_seq d + 2, f_user_id = u, f_name = lower n2,
             f_kcal_per_100g = k2, f_protein_per_100g = p2,
             f_carbs_per_100g = c2, f_fat_per_100g = t2\<rparr>]"
    by (simp add: add_food_def old_rows_gone del: filter_filter)
qed

theorem add_food_last_write_wins_witness:
  "lower (CHR 0xC9 # ''clair'') = lower (CHR 0xE9 # ''CLAIR'')
   \<and> filter (\<lambda>row. name row = CHR 0xE9 # ''clair'')
       (get_foods (add_food (add_food init_db 1 (CHR 0xC9 # ''clair'') 262 6 24 16)
                     1 (CHR 0xE9 # ''CLAIR'') 250 5.5 23 15) 1)
     = [\<lparr>name = CHR 0xE9 # ''clair'', kcal_per_100g = 250, protein_per_100g = 5.5,
          carbs_per_100g = 23, fat_per_100g = 15\<rparr>]
   \<and> lower ''Egg'' \<noteq> lower ''Eggs''
   \<and> map f_kcal_per_100g
       (filter (\<lambda>r. f_user_id r = 1 \<and> (f_name r = ''egg'' \<or> f_name r = ''eggs''))
          (foods (add_food (add_food init_db 1 ''Egg'' 155 13 1.1 11) 1 ''Eggs'' 143 12.6 0.7 9.5)))
     = [155, 143]"
proof -
  have h: "lower (CHR 0xC9 # ''clair'') = lower (CHR 0xE9 # ''CLAIR'')" by code_simp
  have l: "lower (CHR 0xE9 # ''CLAIR'') = CHR 0xE9 # ''clair''" by code_simp
  have n: "lower ''Egg'' \<noteq> lower ''Eggs''" by code_simp
  have l1: "lower ''Egg'' = ''egg''" and l2: "lower ''Eggs'' = ''eggs''" by code_simp+
  from add_food_last_write_wins
         [of "CHR 0xC9 # ''clair''" "CHR 0xE9 # ''CLAIR''" 1 init_db 262 6 24 16 250 "5.5" 23 15] h
  have "filter (\<lambda>row. name row = lower (CHR 0xE9 # ''CLAIR''))
       (get_foods (add_food (add_food init_db 1 (CHR 0xC9 # ''clair'') 262 6 24 16)
                     1 (CHR 0xE9 # ''CLAIR'') 250 5.5 23 15) 1)
     = [\<lparr>name = lower (CHR 0xE9 # ''CLAIR''), kcal_per_100g = 250, protein_per_100g = 5.5,
          carbs_per_100g = 23, fat_per_100g = 15\<rparr>]"
    by blast
  then have a: "filter (\<lambda>row. name row = CHR 0xE9 # ''clair'')
       (get_foods (add_food (add_food init_db 1 (CHR 0xC9 # ''clair'') 262 6 24 16)
                     1 (CHR 0xE9 # ''CLAIR'') 250 5.5 23 15) 1)
     = [\<lparr>name = CHR 0xE9 # ''clair'', kcal_per_100g = 250, protein_per_100g = 5.5,
          carbs_per_100g = 23, fat_per_100g = 15\<rparr>]"
    by (simp only: l)
  from add_food_last_write_wins
         [of "''Egg''" "''Eggs''" 1 init_db 155 13 "1.1" 11 143 "12.6" "0.7" "9.5"] n
  have "filter (\<lambda>r. f_user_id r = 1 \<and> (f_name r = lower ''Egg'' \<or> f_name r = lower ''Eggs''))
          (foods (add_food (add_food init_db 1 ''Egg'' 155 13 1.1 11) 1 ''Eggs'' 143 12.6 0.7 9.5))
        = [\<lparr>f_id = foods_seq init_db + 1, f_user_id = 1, f_name = lower ''Egg'',
             f_kcal_per_100g = 155, f_protein_per_100g = 13,
             f_carbs_per_100g = 1.1, f_fat_per_100g = 11\<rparr>,
           \<lparr>f_id = foods_seq init_db + 2, f_user_id = 1, f_name = lower ''Eggs'',
             f_kcal_per_100g = 143, f_protein_per_100g = 12.6,
             f_carbs_per_100g = 0.7, f_fat_per_100g = 9.5\<rparr>]"
    by blast
  then have b: "map f_kcal_per_100g
       (filter (\<lambda>r. f_user_id r = 1 \<and> (f_name r = ''egg'' \<or> f_name r = ''eggs''))
          (foods (add_food (add_food init_db 1 ''Egg'' 155 13 1.1 11) 1 ''Eggs'' 143 12.6 0.7 9.5)))
     = [155, 143]"
    by (simp only: l1 l2) simp
  from h a n b show ?thesis by (intro conjI)
qed

text \<open>
  The claim C5 as the specification words it, on the case-folded name, fails: the names
  Strasse written with a sharp s and STRASSE have the same case folding, but
  \<^verbatim>\<open>str.lower()\<close> keeps the sharp s, so the two upserts leave two definitions.
\<close>

theorem add_food_casefold_two_rows:
  "casefold (''Stra'' @ [CHR 0xDF] @ ''e'') = casefold ''STRASSE''
   \<and> get_foods
       (add_food (add_food init_db 1 (''Stra'' @ [CHR 0xDF] @ ''e'') 300 9 60 2)
          1 ''STRASSE'' 250 8 50 1) 1
     = [\<lparr>name = ''strasse'', kcal_per_100g = 250, protein_per_100g = 8,
          carbs_per_100g = 50, fat_per_100g = 1\<rparr>,
        \<lparr>name = ''stra'' @ [CHR 0xDF] @ ''e'', kcal_per_100g = 300, protein_per_100g = 9,
          carbs_per_100g = 60, fat_per_100g = 2\<rparr>]"
  by code_simp

text \<open>
  C6. A log entry is a snapshot: upserting a food definition, once or again, and seeding
  the catalog leave the table of log entries as it is, entries of the redefined food
  included; so does every listing of a day. Appending an entry leaves the entries before
  it as they are.
\<close>

theorem logs_unchanged_by_add_food:
  "logs (add_food d u nm kc pr cb ft) = logs d
   \<and> logs (add_food (add_food d u nm kc pr cb ft) u nm kc' pr' cb' ft') = logs d
   \<and> logs (seed_example_foods_for_user d u) = logs d
   \<and> get_logs_for_date (add_food d u nm kc pr cb ft) u' dt = get_logs_for_date d u' dt
   \<and> take (length (logs d)) (logs (log_food d u dt tm fd w kc pr cb ft ml)) = logs d"
  by (simp add: logs_add_food seed_example_foods_for_user_def logs_fold_add_food
      get_logs_for_date_def log_food_def)

section \<open>Deleting a log entry\<close>

text \<open>
  C7. Deleting by user and entry id: when no entry has that id and that user (the id does
  not exist, or the entry is another user's) the database stays as it is; when the user
  owns an entry of that id, exactly that entry leaves the table and all others stay, in
  order. The operation has no failing branch and never touches the foods.
\<close>

theorem delete_log_scoped:
  "(\<not> (\<exists>e\<in>set (logs d). l_id e = i \<and> l_user_id e = u) \<longrightarrow> delete_log d u i = d)
   \<and> (wf_db d \<longrightarrow> (\<forall>e\<in>set (logs d). l_id e = i \<and> l_user_id e = u \<longrightarrow>
         logs (delete_log d u i) = remove1 e (logs d)
         \<and> e \<notin> set (logs (delete_log d u i))))
   \<and> foods (delete_log d u i) = foods d"
proof (intro conjI impI ballI)
  assume "\<not> (\<exists>e\<in>set (logs d). l_id e = i \<and> l_user_id e = u)"
  then have "filter (\<lambda>e. \<not> (l_user_id e = u \<and> l_id e = i)) (logs d) = logs d"
    by (auto simp: filter_id_conv)
  then show "delete_log d u i = d"
    by (simp add: delete_log_def)
next
  fix e assume wf: "wf_db d" and e: "e \<in> set (logs d)" "l_id e = i \<and> l_user_id e = u"
  from wf have dist: "distinct (map l_id (logs d))" by (simp add: wf_db_def)
  from filter_remove1_id [OF dist e(1)] e(2)
  show "logs (delete_log d u i) = remove1 e (logs d)"
    by (auto simp: delete_log_def)
  from e(2) show "e \<notin> set (logs (delete_log d u i))"
    by (simp add: delete_log_def)
next
  show "foods (delete_log d u i) = foods d" by (simp add: delete_log_def)
qed

theorem delete_log_scoped_witness:
  "wf_db example_db
   \<and> delete_log example_db 1 3 = example_db
   \<and> delete_log example_db 1 9 = example_db
   \<and> map l_id (logs (delete_log example_db 1 2)) = [1, 3, 4, 5]"
proof -
  have a: "delete_log example_db 1 3 = example_db"
    using delete_log_scoped [of example_db 3 1] by (simp add: logs_example_db)
  have b: "delete_log example_db 1 9 = example_db"
    using delete_log_scoped [of example_db 9 1] by (simp add: logs_example_db)
  have c: "map l_id (logs (delete_log example_db 1 2)) = [1, 3, 4, 5]"
    using delete_log_scoped [of example_db 2 1] wf_example_db by (simp add: logs_example_db)
  from wf_example_db a b c show ?thesis by simp
qed

section \<open>Seeding the catalog\<close>

lemma user_rows_fold:
  "map select_food (filter (\<lambda>r. f_user_id r = u)
      (foods (fold (\<lambda>(nm, kc, pr, cb, ft) d'. add_food d' u nm kc pr cb ft) xs d)))
   = fold (\<lambda>(nm, kc, pr, cb, ft) rs. filter (\<lambda>x. name x \<noteq> lower nm) rs
             @ [\<lparr>name = lower nm, kcal_per_100g = kc, protein_per_100g = pr,
                  carbs_per_100g = cb, fat_per_100g = ft\<rparr>]) xs
       (map select_food (filter (\<lambda>r. f_user_id r = u) (foods d)))"
  by (induction xs arbitrary: d) (auto simp: user_rows_add_food)

lemma fold_sample:
  "fold (\<lambda>(nm, kc, pr, cb, ft) rs. filter (\<lambda>x. name x \<noteq> lower nm) rs
             @ [\<lparr>name = lower nm, kcal_per_100g = kc, protein_per_100g = pr,
                  carbs_per_100g = cb, fat_per_100g = ft\<rparr>]) sample []
   = map (\<lambda>(nm, kc, pr, cb, ft). \<lparr>name = nm, kcal_per_100g = kc, protein_per_100g = pr,
            carbs_per_100g = cb, fat_per_100g = ft\<rparr>) sample"
  by code_simp

lemma get_foods_empty_iff:
  "get_foods d u = [] \<longleftrightarrow> filter (\<lambda>r. f_user_id r = u) (foods d) = []"
proof -
  have "length (get_foods d u) = length (filter (\<lambda>r. f_user_id r = u) (foods d))"
    by (simp add: get_foods_def)
  then show ?thesis by (metis length_0_conv)
qed

lemma get_foods_seed:
  assumes "get_foods d u = []"
  shows "get_foods (seed_example_foods_for_user d u) u =
     sort_key name (map (\<lambda>(nm, kc, pr, cb, ft). \<lparr>name = nm, kcal_per_100g = kc,
        protein_per_100g = pr, carbs_per_100g = cb, fat_per_100g = ft\<rparr>) sample)"
proof -
  from assms have "map select_food (filter (\<lambda>r. f_user_id r = u) (foods d)) = []"
    by (simp add: get_foods_empty_iff)
  then have "map select_food
        (filter (\<lambda>r. f_user_id r = u) (foods (seed_example_foods_for_user d u)))
     = map (\<lambda>(nm, kc, pr, cb, ft). \<lparr>name = nm, kcal_per_100g = kc, protein_per_100g = pr,
          carbs_per_100g = cb, fat_per_100g = ft\<rparr>) sample"
    by (simp only: seed_example_foods_for_user_def user_rows_fold fold_sample)
  then show ?thesis by (simp only: get_foods_def)
qed

lemma sorted_sample:
  "sort_key name (map (\<lambda>(nm, kc, pr, cb, ft). \<lparr>name = nm, kcal_per_100g = kc,
        protein_per_100g = pr, carbs_per_100g = cb, fat_per_100g = ft\<rparr>) sample)
   = [\<lparr>name = ''apple'', kcal_per_100g = 52, protein_per_100g = 0.3,
         carbs_per_100g = 14.0, fat_per_100g = 0.2\<rparr>,
      \<lparr>name = ''banana'', kcal_per_100g = 89, protein_per_100g = 1.1,
         carbs_per_100g = 23.0, fat_per_100g = 0.3\<rparr>,
      \<lparr>name = ''chicken'', kcal_per_100g = 165, protein_per_100g = 31.0,
         carbs_per_100g = 0.0, fat_per_100g = 3.6\<rparr>,
      \<lparr>name = ''dal'', kcal_per_100g = 116, protein_per_100g = 9.0,
         carbs_per_100g = 20.0, fat_per_100g = 1.0\<rparr>,
      \<lparr>name = ''egg'', kcal_per_100g = 155, protein_per_100g = 13.0,
         carbs_per_100g = 1.1, fat_per_100g = 11.0\<rparr>,
      \<lparr>name = ''milk'', kcal_per_100g = 60, protein_per_100g = 3.2,
         carbs_per_100g = 5.0, fat_per_100g = 3.3\<rparr>,
      \<lparr>name = ''oats'', kcal_per_100g = 389, protein_per_100g = 17.0,
         carbs_per_100g = 66.0, fat_per_100g = 7.0\<rparr>,
      \<lparr>name = ''paneer'', kcal_per_100g = 265, protein_per_100g = 18.0,
         carbs_per_100g = 1.2, fat_per_100g = 20.8\<rparr>,
      \<lparr>name = ''rice'', kcal_per_100g = 130, protein_per_100g = 2.7,
         carbs_per_100g = 28.0, fat_per_100g = 0.3\<rparr>,
      \<lparr>name = ''roti'', kcal_per_100g = 120, protein_per_100g = 3.6,
         carbs_per_100g = 20.0, fat_per_100g = 1.0\<rparr>]"
  by code_simp

text \<open>
  C8. When the listing of a user's catalog is empty the page script seeds the ten sample
  foods, and the listing it reads back is exactly those ten rows, each with its four
  densities, in ascending order of the name. Only emptiness triggers it: with a
  non-empty listing the database is left as it is, so running the trigger again after a
  seeding changes nothing.
\<close>

theorem seed_when_catalog_empty:
  "(get_foods d u = [] \<longrightarrow>
      ensure_sample_foods d u =
        (seed_example_foods_for_user d u,
         [\<lparr>name = ''apple'', kcal_per_100g = 52, protein_per_100g = 0.3,
             carbs_per_100g = 14.0, fat_per_100g = 0.2\<rparr>,
          \<lparr>name = ''banana'', kcal_per_100g = 89, protein_per_100g = 1.1,
             carbs_per_100g = 23.0, fat_per_100g = 0.3\<rparr>,
          \<lparr>name = ''chicken'', kcal_per_100g = 165, protein_per_100g = 31.0,
             carbs_per_100g = 0.0, fat_per_100g = 3.6\<rparr>,
          \<lparr>name = ''dal'', kcal_per_100g = 116, protein_per_100g = 9.0,
             carbs_per_100g = 20.0, fat_per_100g = 1.0\<rparr>,
          \<lparr>name = ''egg'', kcal_per_100g = 155, protein_per_100g = 13.0,
             carbs_per_100g = 1.1, fat_per_100g = 11.0\<rparr>,
          \<lparr>name = ''milk'', kcal_per_100g = 60, protein_per_100g = 3.2,
             carbs_per_100g = 5.0, fat_per_100g = 3.3\<rparr>,
          \<lparr>name = ''oats'', kcal_per_100g = 389, protein_per_100g = 17.0,
             carbs_per_100g = 66.0, fat_per_100g = 7.0\<rparr>,
          \<lparr>name = ''paneer'', kcal_per_100g = 265, protein_per_100g = 18.0,
             carbs_per_100g = 1.2, fat_per_100g = 20.8\<rparr>,
          \<lparr>name = ''rice'', kcal_per_100g = 130, protein_per_100g = 2.7,
             carbs_per_100g = 28.0, fat_per_100g = 0.3\<rparr>,
          \<lparr>name = ''roti'', kcal_per_100g = 120, protein_per_100g = 3.6,
             carbs_per_100g = 20.0, fat_per_100g = 1.0\<rparr>])
      \<and> length (snd (ensure_sample_foods d u)) = 10
      \<and> sorted (map name (snd (ensure_sample_foods d u)))
      \<and> set (snd (ensure_sample_foods d u))
          = (\<lambda>(nm, kc, pr, cb, ft). \<lparr>name = nm, kcal_per_100g = kc, protein_per_100g = pr,
               carbs_per_100g = cb, fat_per_100g = ft\<rparr>) ` set sample)
   \<and> (get_foods d u \<noteq> [] \<longrightarrow> ensure_sample_foods d u = (d, get_foods d u))
   \<and> ensure_sample_foods (fst (ensure_sample_foods d u)) u = ensure_sample_foods d u"
proof -
  let ?mk = "\<lambda>(nm, kc, pr, cb, ft). \<lparr>name = nm, kcal_per_100g = kc, protein_per_100g = pr,
               carbs_per_100g = cb, fat_per_100g = ft\<rparr>"
  let ?L = "sort_key name (map ?mk sample)"
  have len: "length ?L = 10" by (simp add: sample_def)
  have nonempty: "get_foods d u \<noteq> [] \<Longrightarrow> ensure_sample_foods d u = (d, get_foods d u)"
    by (simp add: ensure_sample_foods_def Let_def)
  have seeded: "ensure_sample_foods d u = (seed_example_foods_for_user d u, ?L)"
    and again: "ensure_sample_foods (seed_example_foods_for_user d u) u
                  = (seed_example_foods_for_user d u, ?L)"
    if e: "get_foods d u = []"
  proof -
    have l: "get_foods (seed_example_foods_for_user d u) u = ?L"
      using get_foods_seed [OF e] .
    show "ensure_sample_foods d u = (seed_example_foods_for_user d u, ?L)"
      using e l by (simp add: ensure_sample_foods_def Let_def)
    from len have "?L \<noteq> []" by (metis length_0_conv zero_neq_numeral)
    with l show "ensure_sample_foods (seed_example_foods_for_user d u) u
                  = (seed_example_foods_for_user d u, ?L)"
      by (simp add: ensure_sample_foods_def Let_def)
  qed
  have idem: "ensure_sample_foods (fst (ensure_sample_foods d u)) u = ensure_sample_foods d u"
  proof (cases "get_foods d u = []")
    case True
    from seeded [OF True] again [OF True] show ?thesis by simp
  next
    case False
    from nonempty [OF False] show ?thesis by simp
  qed
  have props: "length (snd (ensure_sample_foods d u)) = 10
      \<and> sorted (map name (snd (ensure_sample_foods d u)))
      \<and> set (snd (ensure_sample_foods d u)) = ?mk ` set sample"
    if e: "get_foods d u = []"
    unfolding seeded [OF e] snd_conv using len by simp
  from seeded props nonempty idem show ?thesis
    unfolding sorted_sample by blast
qed

theorem seed_when_catalog_empty_witness:
  "get_foods init_db 1 = []
   \<and> map name (snd (ensure_sample_foods init_db 1))
       = [''apple'', ''banana'', ''chicken'', ''dal'', ''egg'', ''milk'', ''oats'', ''paneer'',
          ''rice'', ''roti'']
   \<and> get_foods example_db 1 \<noteq> []
   \<and> ensure_sample_foods example_db 1 = (example_db, get_foods example_db 1)"
proof -
  have e: "get_foods init_db 1 = []" by code_simp
  have n: "get_foods example_db 1 \<noteq> []" by code_simp
  have 1: "map name (snd (ensure_sample_foods init_db 1))
       = [''apple'', ''banana'', ''chicken'', ''dal'', ''egg'', ''milk'', ''oats'', ''paneer'',
          ''rice'', ''roti'']"
    using seed_when_catalog_empty [of init_db 1] e by simp
  have 2: "ensure_sample_foods example_db 1 = (example_db, get_foods example_db 1)"
    using seed_when_catalog_empty [of example_db 1] n by blast
  from e n 1 2 show ?thesis by blast
qed

section \<open>Logging an entry\<close>

lemma filter_key_unique:
  "distinct (map f xs) \<Longrightarrow> x \<in> set xs \<Longrightarrow> filter (\<lambda>y. f y = f x) xs = [x]"
proof (induction xs)
  case Nil
  then show ?case by simp
next
  case (Cons a xs)
  show ?case
  proof (cases "a = x")
    case True
    with Cons.prems have "f x \<notin> f ` set xs" by simp
    then have "\<forall>y\<in>set xs. f y \<noteq> f x" by (metis imageI)
    then have "filter (\<lambda>y. f y = f x) xs = []" by (simp add: filter_empty_conv)
    with True show ?thesis by simp
  next
    case False
    with Cons.prems have "x \<in> set xs" "f a \<noteq> f x" by auto
    with Cons show ?thesis by simp
  qed
qed

lemma lookup_get_foods:
  "filter (\<lambda>row. name row = fc) (get_foods d u)
   = sort_key name
       (map select_food (filter (\<lambda>r. (f_user_id r, f_name r) = (u, fc)) (foods d)))"
proof -
  have "filter (\<lambda>row. name row = fc) (map select_food (filter (\<lambda>r. f_user_id r = u) xs))
      = map select_food (filter (\<lambda>r. (f_user_id r, f_name r) = (u, fc)) xs)" for xs
    by (induction xs) (auto simp: select_food_def)
  then show ?thesis by (simp only: get_foods_def filter_sort)
qed

text \<open>
  C2, as the code has it. The handler fails, with \<^verbatim>\<open>IndexError\<close>, exactly when the catalog
  of the user has no row of the chosen name, and then nothing is stored. When the catalog
  has the row, the handler stores a new entry whose four nutrient values are the densities
  of that row times the weight over 100, whatever the weight: neither the handler nor
  \<^verbatim>\<open>log_food\<close> checks the weight, and \<^verbatim>\<open>log_food\<close> stores what it is given without
  looking at the catalog.
\<close>

theorem add_entry_outcome:
  "((\<forall>r\<in>set (foods d). f_user_id r = u \<longrightarrow> f_name r \<noteq> fc)
       \<longrightarrow> add_entry d u today now fc w ml = Inl IndexError)
   \<and> (wf_db d \<longrightarrow> (\<forall>r\<in>set (foods d). f_user_id r = u \<and> f_name r = fc \<longrightarrow>
         add_entry d u today now fc w ml
         = Inr (log_food d u today now fc w
                  (f_kcal_per_100g r * w / 100) (f_protein_per_100g r * w / 100)
                  (f_carbs_per_100g r * w / 100) (f_fat_per_100g r * w / 100) ml)))
   \<and> log_food d u today now fc w kc pr cb ft ml
     = d\<lparr>logs := logs d @ [\<lparr>l_id = logs_seq d + 1, l_user_id = u, l_entry_date = today,
               l_time = now, l_food = lower fc, l_weight_g = w,
               l_kcal = kc, l_protein = pr, l_carbs = cb, l_fat = ft, l_meal = ml\<rparr>],
          logs_seq := logs_seq d + 1\<rparr>"
proof (intro conjI impI ballI)
  assume "\<forall>r\<in>set (foods d). f_user_id r = u \<longrightarrow> f_name r \<noteq> fc"
  then have "filter (\<lambda>r. (f_user_id r, f_name r) = (u, fc)) (foods d) = []"
    by (auto simp: filter_empty_conv)
  then show "add_entry d u today now fc w ml = Inl IndexError"
    by (simp add: add_entry_def lookup_get_foods)
next
  fix r assume wf: "wf_db d" and r: "r \<in> set (foods d)" "f_user_id r = u \<and> f_name r = fc"
  from wf have "distinct (map (\<lambda>r. (f_user_id r, f_name r)) (foods d))"
    by (simp add: wf_db_def)
  from filter_key_unique [OF this r(1)] r(2)
  have "filter (\<lambda>r. (f_user_id r, f_name r) = (u, fc)) (foods d) = [r]" by simp
  then show "add_entry d u today now fc w ml
         = Inr (log_food d u today now fc w
                  (f_kcal_per_100g r * w / 100) (f_protein_per_100g r * w / 100)
                  (f_carbs_per_100g r * w / 100) (f_fat_per_100g r * w / 100) ml)"
    by (simp add: add_entry_def lookup_get_foods calc_from_food_row_def select_food_def)
next
  show "log_food d u today now fc w kc pr cb ft ml
     = d\<lparr>logs := logs d @ [\<lparr>l_id = logs_seq d + 1, l_user_id = u, l_entry_date = today,
               l_time = now, l_food = lower fc, l_weight_g = w,
               l_kcal = kc, l_protein = pr, l_carbs = cb, l_fat = ft, l_meal = ml\<rparr>],
          logs_seq := logs_seq d + 1\<rparr>"
    by (simp add: log_food_def)
qed

theorem add_entry_outcome_witness:
  "wf_db example_db
   \<and> add_entry example_db 2 739924 ''10:00:00'' ''egg'' 50 ''Snack'' = Inl IndexError
   \<and> add_entry example_db 1 739924 ''10:00:00'' ''egg'' 50 ''Snack''
     = Inr (log_food example_db 1 739924 ''10:00:00'' ''egg'' 50 77.5 6.5 0.55 5.5 ''Snack'')"
proof -
  let ?egg = "\<lparr>f_id = 4, f_user_id = 1, f_name = ''egg'', f_kcal_per_100g = 155,
      f_protein_per_100g = 13.0, f_carbs_per_100g = 1.1, f_fat_per_100g = 11.0\<rparr>"
  have none: "\<forall>r\<in>set (foods example_db). f_user_id r = 2 \<longrightarrow> f_name r \<noteq> ''egg''"
    by code_simp
  have egg: "?egg \<in> set (foods example_db)" by code_simp
  have a: "add_entry example_db 2 739924 ''10:00:00'' ''egg'' 50 ''Snack'' = Inl IndexError"
    using add_entry_outcome [of example_db 2 "''egg''" 739924 "''10:00:00''" 50 "''Snack''"] none
    by blast
  have "f_user_id ?egg = 1 \<and> f_name ?egg = ''egg''" by simp
  with add_entry_outcome [of example_db 1 "''egg''" 739924 "''10:00:00''" 50 "''Snack''"]
    wf_example_db egg
  have "add_entry example_db 1 739924 ''10:00:00'' ''egg'' 50 ''Snack''
     = Inr (log_food example_db 1 739924 ''10:00:00'' ''egg'' 50
              (f_kcal_per_100g ?egg * 50 / 100) (f_protein_per_100g ?egg * 50 / 100)
              (f_carbs_per_100g ?egg * 50 / 100) (f_fat_per_100g ?egg * 50 / 100) ''Snack'')"
    by blast
  then have b: "add_entry example_db 1 739924 ''10:00:00'' ''egg'' 50 ''Snack''
     = Inr (log_food example_db 1 739924 ''10:00:00'' ''egg'' 50 77.5 6.5 0.55 5.5 ''Snack'')"
    by simp
  from wf_example_db a b show ?thesis by blast
qed

text \<open>
  The claim C2 as the specification words it fails: a weight of 0 goes through the handler
  and is stored, and \<^verbatim>\<open>log_food\<close> stores an entry of weight -5 for a food that is in no
  catalog.
\<close>

theorem add_entry_no_weight_check:
  "add_entry example_db 1 739924 ''10:00:00'' ''egg'' 0 ''Snack''
     = Inr (log_food example_db 1 739924 ''10:00:00'' ''egg'' 0 0 0 0 0 ''Snack'')
   \<and> logs (log_food init_db 1 739924 ''10:00:00'' ''pizza'' (- 5) 0 0 0 0 ''Snack'')
     = [\<lparr>l_id = 1, l_user_id = 1, l_entry_date = 739924, l_time = ''10:00:00'',
         l_food = ''pizza'', l_weight_g = - 5, l_kcal = 0, l_protein = 0, l_carbs = 0,
         l_fat = 0, l_meal = ''Snack''\<rparr>]"
  by code_simp

section \<open>Per-meal breakdown\<close>

lemma map_of_tabulate:
  "map_of (map (\<lambda>k. (k, f k)) ks) k = (if k \<in> set ks then Some (f k) else None)"
  by (induction ks) auto

text \<open>
  C9. The breakdown of a day groups the day's entries by meal and sums the four channels
  per group: it has one row per meal that occurs that day, the meals in ascending order
  and none twice, each row the sums over the day's entries of that meal; a meal without
  an entry that day has no row. On a day without entries no breakdown is computed. A
  breakfast-only day with entries of 100 and 50 kcal has the one row Breakfast of 150 kcal.
\<close>

theorem meal_summary_sparse:
  "(get_logs_for_date d u dt = [] \<longrightarrow> meal_summary (get_logs_for_date d u dt) = None)
   \<and> (get_logs_for_date d u dt \<noteq> [] \<longrightarrow>
        (\<exists>rows. meal_summary (get_logs_for_date d u dt) = Some rows
           \<and> sorted (map fst rows) \<and> distinct (map fst rows)
           \<and> (\<forall>m. map_of rows m =
                 (if m \<in> l_meal ` set (get_logs_for_date d u dt)
                  then Some (sum_rows (filter (\<lambda>e. l_meal e = m) (get_logs_for_date d u dt)))
                  else None))))
   \<and> meal_summary (get_logs_for_date
        (log_food
           (log_food init_db 1 739924 ''07:30:00'' ''oats'' 25.7 100 4.4 17 1.8 ''Breakfast'')
           1 739924 ''07:40:00'' ''banana'' 56.2 50 0.6 12.9 0.2 ''Breakfast'') 1 739924)
      = Some [(''Breakfast'', \<lparr>kcal = 150, protein = 5, carbs = 29.9, fat = 2\<rparr>)]"
proof (intro conjI impI)
  assume "get_logs_for_date d u dt = []"
  then show "meal_summary (get_logs_for_date d u dt) = None" by (simp add: meal_summary_def)
next
  assume ne: "get_logs_for_date d u dt \<noteq> []"
  let ?df = "get_logs_for_date d u dt"
  let ?rows = "map (\<lambda>m. (m, sum_rows (filter (\<lambda>e. l_meal e = m) ?df)))
                 (sort (remdups (map l_meal ?df)))"
  have 1: "meal_summary ?df = Some ?rows" using ne by (simp add: meal_summary_def)
  have 2: "map fst ?rows = sort (remdups (map l_meal ?df))" by (simp add: comp_def)
  have 3: "\<forall>m. map_of ?rows m = (if m \<in> l_meal ` set ?df
                  then Some (sum_rows (filter (\<lambda>e. l_meal e = m) ?df)) else None)"
    by (simp add: map_of_tabulate)
  from 1 2 3 show "\<exists>rows. meal_summary ?df = Some rows
           \<and> sorted (map fst rows) \<and> distinct (map fst rows)
           \<and> (\<forall>m. map_of rows m =
                 (if m \<in> l_meal ` set ?df
                  then Some (sum_rows (filter (\<lambda>e. l_meal e = m) ?df))
                  else None))"
    by (intro exI [of _ ?rows]) (simp only: 2, simp)
next
  show "meal_summary (get_logs_for_date
        (log_food
           (log_food init_db 1 739924 ''07:30:00'' ''oats'' 25.7 100 4.4 17 1.8 ''Breakfast'')
           1 739924 ''07:40:00'' ''banana'' 56.2 50 0.6 12.9 0.2 ''Breakfast'') 1 739924)
      = Some [(''Breakfast'', \<lparr>kcal = 150, protein = 5, carbs = 29.9, fat = 2\<rparr>)]"
    by code_simp
qed

theorem meal_summary_sparse_witness:
  "get_logs_for_date example_db 1 739924 \<noteq> []
   \<and> get_logs_for_date example_db 1 739923 = []
   \<and> meal_summary (get_logs_for_date example_db 1 739923) = None
   \<and> (\<exists>rows. meal_summary (get_logs_for_date example_db 1 739924) = Some rows
         \<and> map_of rows ''Breakfast''
             = Some \<lparr>kcal = 137.5, protein = 9.7, carbs = 5.55, fat = 8.8\<rparr>
         \<and> map_of rows ''Lunch'' = None)"
proof -
  have ne: "get_logs_for_date example_db 1 739924 \<noteq> []" by code_simp
  have em: "get_logs_for_date example_db 1 739923 = []" by code_simp
  have meals: "l_meal ` set (get_logs_for_date example_db 1 739924) = {''Breakfast''}"
    by code_simp
  have total: "sum_rows (filter (\<lambda>e. l_meal e = ''Breakfast'')
                  (get_logs_for_date example_db 1 739924))
               = \<lparr>kcal = 137.5, protein = 9.7, carbs = 5.55, fat = 8.8\<rparr>"
    by code_simp
  from meal_summary_sparse [of example_db 1 739923] em
  have a: "meal_summary (get_logs_for_date example_db 1 739923) = None" by blast
  from meal_summary_sparse [of example_db 1 739924] ne
  obtain rows where rows: "meal_summary (get_logs_for_date example_db 1 739924) = Some rows"
    "\<forall>m. map_of rows m =
        (if m \<in> l_meal ` set (get_logs_for_date example_db 1 739924)
         then Some (sum_rows (filter (\<lambda>e. l_meal e = m) (get_logs_for_date example_db 1 739924)))
         else None)"
    by blast
  from rows(2) meals total
  have "map_of rows ''Breakfast'' = Some \<lparr>kcal = 137.5, protein = 9.7, carbs = 5.55, fat = 8.8\<rparr>"
    and "map_of rows ''Lunch'' = None"
    by simp_all
  with rows(1) ne em a show ?thesis by blast
qed

section \<open>History\<close>

lemma sum_rows_Nil: "sum_rows [] = zero_row"
  by (simp add: sum_rows_def zero_row_def)

lemma window_day:
  "start \<le> dt \<Longrightarrow>
   filter (\<lambda>e. l_entry_date e = dt)
     (filter (\<lambda>e. l_user_id e = u \<and> start \<le> l_entry_date e) (logs d))
   = get_logs_for_date d u dt"
  unfolding get_logs_for_date_def by (induction "logs d") (auto intro: filter_cong)

lemma map_of_history_query:
  assumes "start \<le> dt"
  shows "map_of (history_query d u start) dt
     = (if get_logs_for_date d u dt = [] then None
        else Some (sum_rows (get_logs_for_date d u dt)))"
proof -
  let ?rows = "filter (\<lambda>e. l_user_id e = u \<and> start \<le> l_entry_date e) (logs d)"
  have mem: "dt \<in> l_entry_date ` set ?rows \<longleftrightarrow> get_logs_for_date d u dt \<noteq> []"
    using assms by (auto simp: get_logs_for_date_def filter_empty_conv)
  have "map_of (history_query d u start) dt
      = (if dt \<in> l_entry_date ` set ?rows
         then Some (sum_rows (filter (\<lambda>e. l_entry_date e = dt) ?rows)) else None)"
    by (simp add: history_query_def Let_def map_of_tabulate del: filter_filter)
  then show ?thesis
    by (simp only: mem window_day [OF assms]) simp
qed

lemma reindex_history_query:
  "\<forall>dt\<in>set idx. start \<le> dt \<Longrightarrow>
   reindex idx (history_query d u start)
   = map (\<lambda>dt. (dt, sum_rows (get_logs_for_date d u dt))) idx"
  by (simp add: reindex_def map_of_history_query sum_rows_Nil)

lemma history_query_empty:
  assumes "history_query d u start = []" "start \<le> dt"
  shows "get_logs_for_date d u dt = []"
proof -
  from assms(1) have "map_of (history_query d u start) dt = None" by simp
  with map_of_history_query [OF assms(2), of d u] show ?thesis by (simp split: if_splits)
qed

lemma zero_fill_history_query:
  "history_query d u start = [] \<Longrightarrow> \<forall>dt\<in>set idx. start \<le> dt \<Longrightarrow>
   map (\<lambda>dt. (dt, zero_row)) idx
   = map (\<lambda>dt. (dt, sum_rows (get_logs_for_date d u dt))) idx"
  by (simp add: history_query_empty sum_rows_Nil)

text \<open>Both branches of \<^verbatim>\<open>get_history\<close> produce the same frame.\<close>

lemma get_history_cases:
  "get_history d today u days =
     (if timedelta_max_days < \<bar>days - 1\<bar> then Inl OverflowError
      else if today - (days - 1) < date_min \<or> date_max < today - (days - 1)
      then Inl OverflowError
      else Inr (map (\<lambda>dt. (dt, sum_rows (get_logs_for_date d u dt)))
                  [today - (days - 1)..today]))"
proof -
  let ?start = "today - (days - 1)"
  let ?df = "history_query d u ?start"
  have idx: "\<forall>dt\<in>set [?start..today]. ?start \<le> dt" by simp
  have body: "(if ?df = []
          then Inr (map (\<lambda>dt. (dt, zero_row)) [?start..today])
          else Inr (reindex [?start..today] ?df))
       = (Inr (map (\<lambda>dt. (dt, sum_rows (get_logs_for_date d u dt))) [?start..today])
            :: py_error + (int \<times> totals) list)"
  proof (cases "?df = []")
    case True
    with zero_fill_history_query [OF True idx] show ?thesis by simp
  next
    case False
    with reindex_history_query [OF idx, of d u] show ?thesis by simp
  qed
  show ?thesis
    unfolding get_history_def Let_def date_range_def body ..
qed

lemma get_history_in_range:
  assumes "1 \<le> days" "date_min \<le> today - (days - 1)" "today \<le> date_max"
  shows "get_history d today u days
           = Inr (map (\<lambda>dt. (dt, sum_rows (get_logs_for_date d u dt)))
                    [today - (days - 1)..today])"
proof -
  from assms have "\<not> timedelta_max_days < \<bar>days - 1\<bar>"
    "\<not> (today - (days - 1) < date_min \<or> date_max < today - (days - 1))"
    by (simp_all add: timedelta_max_days_def date_min_def date_max_def)
  then show ?thesis
    by (simp add: get_history_cases)
qed

lemma get_history_before_date_min:
  assumes "1 \<le> days" "today - (days - 1) < date_min"
  shows "get_history d today u days = Inl OverflowError"
  using assms by (simp add: get_history_cases)

lemma get_logs_for_date_past:
  assumes "filter (\<lambda>e. l_entry_date e \<le> today) (logs d')
             = filter (\<lambda>e. l_entry_date e \<le> today) (logs d)"
    and "dt \<le> today"
  shows "get_logs_for_date d' u dt = get_logs_for_date d u dt"
proof -
  have "get_logs_for_date x u dt
      = filter (\<lambda>e. l_user_id e = u \<and> l_entry_date e = dt)
          (filter (\<lambda>e. l_entry_date e \<le> today) (logs x))" for x
    using assms(2) unfolding get_logs_for_date_def filter_filter
    by (intro filter_cong) auto
  then show ?thesis by (simp only: assms(1))
qed

text \<open>
  C1, as the code has it. For every user and every N \<ge> 1 whose first day today - (N-1)
  is a date (not before 0001-01-01), the history is exactly N rows, one per date from
  today - (N-1) to today in ascending order, each row the sums of the four channels over
  the user's entries of that date; a date without entries is an all-zero row, and without
  any entry in the window all N rows are zero. For every N \<ge> 1 whose first day would lie
  before 0001-01-01 the date arithmetic raises \<^verbatim>\<open>OverflowError\<close> and there is no series.
\<close>

theorem get_history_dense:
  assumes "1 \<le> days" "today \<le> date_max"
  shows "(date_min \<le> today - (days - 1) \<longrightarrow>
            get_history d today u days
              = Inr (map (\<lambda>dt. (dt, sum_rows (get_logs_for_date d u dt)))
                       [today - (days - 1)..today])
            \<and> length [today - (days - 1)..today] = nat days
            \<and> sorted [today - (days - 1)..today] \<and> distinct [today - (days - 1)..today]
            \<and> (\<forall>dt. get_logs_for_date d u dt = []
                  \<longrightarrow> sum_rows (get_logs_for_date d u dt) = zero_row)
            \<and> ((\<forall>dt\<in>set [today - (days - 1)..today]. get_logs_for_date d u dt = [])
                  \<longrightarrow> get_history d today u days
                        = Inr (map (\<lambda>dt. (dt, zero_row)) [today - (days - 1)..today])))
         \<and> (today - (days - 1) < date_min \<longrightarrow>
              get_history d today u days = Inl OverflowError)"
proof (intro conjI impI)
  assume "today - (days - 1) < date_min"
  with assms(1) show "get_history d today u days = Inl OverflowError"
    by (rule get_history_before_date_min)
next
  assume lo: "date_min \<le> today - (days - 1)"
  note h = get_history_in_range [OF assms(1) lo assms(2), of d u]
  from h show "get_history d today u days
              = Inr (map (\<lambda>dt. (dt, sum_rows (get_logs_for_date d u dt)))
                       [today - (days - 1)..today])" .
  from assms(1) show "length [today - (days - 1)..today] = nat days" by simp
  show "sorted [today - (days - 1)..today]" by simp
  show "distinct [today - (days - 1)..today]" by simp
  show "\<forall>dt. get_logs_for_date d u dt = []
          \<longrightarrow> sum_rows (get_logs_for_date d u dt) = zero_row"
    by (simp add: sum_rows_Nil)
  assume "\<forall>dt\<in>set [today - (days - 1)..today]. get_logs_for_date d u dt = []"
  then have "map (\<lambda>dt. (dt, sum_rows (get_logs_for_date d u dt)))
                      [today - (days - 1)..today]
                  = map (\<lambda>dt. (dt, zero_row)) [today - (days - 1)..today]"
    by (intro map_cong) (simp_all add: sum_rows_Nil)
  with h show "get_history d today u days
                 = Inr (map (\<lambda>dt. (dt, zero_row)) [today - (days - 1)..today])"
    by simp
qed

theorem get_history_dense_witness:
  "(1::int) \<le> 7 \<and> 739924 \<le> date_max \<and> date_min \<le> 739924 - (7 - 1)
   \<and> get_history example_db 739924 1 7
     = Inr [(739918, zero_row), (739919, zero_row), (739920, zero_row), (739921, zero_row),
            (739922, \<lparr>kcal = 260, protein = 5.4, carbs = 56, fat = 0.6\<rparr>),
            (739923, zero_row),
            (739924, \<lparr>kcal = 137.5, protein = 9.7, carbs = 5.55, fat = 8.8\<rparr>)]
   \<and> get_history example_db 739924 3 7
     = Inr [(739918, zero_row), (739919, zero_row), (739920, zero_row), (739921, zero_row),
            (739922, zero_row), (739923, zero_row), (739924, zero_row)]
   \<and> (1::int) \<le> 739925 \<and> 739924 - (739925 - 1) < date_min
   \<and> get_history example_db 739924 1 739925 = Inl OverflowError"
proof -
  have h: "(1::int) \<le> 7" "739924 \<le> date_max"
    and lo: "date_min \<le> 739924 - (7 - 1)"
    by (simp_all add: date_min_def date_max_def)
  have h': "(1::int) \<le> 739925" and before: "739924 - (739925 - 1) < date_min"
    by (simp_all add: date_min_def)
  have rows: "map (\<lambda>dt. (dt, sum_rows (get_logs_for_date example_db 1 dt)))
                [739924 - (7 - 1)..739924]
     = [(739918, zero_row), (739919, zero_row), (739920, zero_row), (739921, zero_row),
        (739922, \<lparr>kcal = 260, protein = 5.4, carbs = 56, fat = 0.6\<rparr>),
        (739923, zero_row),
        (739924, \<lparr>kcal = 137.5, protein = 9.7, carbs = 5.55, fat = 8.8\<rparr>)]"
    by code_simp
  have none: "\<forall>dt\<in>set [739924 - (7 - 1)..739924]. get_logs_for_date example_db 3 dt = []"
    by code_simp
  have days: "map (\<lambda>dt. (dt, zero_row)) [739924 - (7 - 1)..739924]
     = [(739918, zero_row), (739919, zero_row), (739920, zero_row), (739921, zero_row),
        (739922, zero_row), (739923, zero_row), (739924, zero_row)]"
    by code_simp
  from get_history_dense [OF h, of example_db 1] lo
  have "get_history example_db 739924 1 7
     = Inr (map (\<lambda>dt. (dt, sum_rows (get_logs_for_date example_db 1 dt)))
              [739924 - (7 - 1)..739924])"
    by blast
  then have a: "get_history example_db 739924 1 7
     = Inr [(739918, zero_row), (739919, zero_row), (739920, zero_row), (739921, zero_row),
            (739922, \<lparr>kcal = 260, protein = 5.4, carbs = 56, fat = 0.6\<rparr>),
            (739923, zero_row),
            (739924, \<lparr>kcal = 137.5, protein = 9.7, carbs = 5.55, fat = 8.8\<rparr>)]"
    by (simp only: rows)
  from get_history_dense [OF h, of example_db 3] lo none
  have "get_history example_db 739924 3 7
     = Inr (map (\<lambda>dt. (dt, zero_row)) [739924 - (7 - 1)..739924])"
    by blast
  then have b: "get_history example_db 739924 3 7
     = Inr [(739918, zero_row), (739919, zero_row), (739920, zero_row), (739921, zero_row),
            (739922, zero_row), (739923, zero_row), (739924, zero_row)]"
    by (simp only: days)
  from get_history_dense [OF h' h(2), of example_db 1] before
  have c: "get_history example_db 739924 1 739925 = Inl OverflowError"
    by blast
  from h lo h' before a b c show ?thesis by blast
qed

text \<open>
  The claim C1 as the specification words it, for every N \<ge> 1 and never an error, fails:
  on 2026-11-04 (day 739924) a window of 1000000 days starts before the first day a
  \<^verbatim>\<open>datetime.date\<close> holds, and the subtraction raises \<^verbatim>\<open>OverflowError\<close>.
\<close>

theorem get_history_window_overflow:
  "get_history example_db 739924 1 1000000 = Inl OverflowError"
  by (simp add: get_history_def timedelta_max_days_def date_min_def)

text \<open>
  C10. Entries dated after today do not affect the history: two databases whose log
  entries up to today agree give the same outcome for every user and every N, so an
  entry dated after today contributes to no row; and a series that is returned spans
  exactly the N dates ending today, each row the sums over the entries of its date.
  A series is returned whenever the first day today - (N-1) is a date.
\<close>

theorem get_history_ignores_future:
  assumes "filter (\<lambda>e. l_entry_date e \<le> today) (logs d')
             = filter (\<lambda>e. l_entry_date e \<le> today) (logs d)"
  shows "get_history d' today u days = get_history d today u days
         \<and> (\<forall>rows. get_history d' today u days = Inr rows \<longrightarrow>
              rows = map (\<lambda>dt. (dt, sum_rows (get_logs_for_date d u dt)))
                       [today - (days - 1)..today]
              \<and> map fst rows = [today - (days - 1)..today]
              \<and> length rows = nat days)
         \<and> (1 \<le> days \<and> date_min \<le> today - (days - 1) \<and> today \<le> date_max \<longrightarrow>
              (\<exists>rows. get_history d' today u days = Inr rows))"
proof (intro conjI allI impI)
  have "map (\<lambda>dt. (dt, sum_rows (get_logs_for_date d' u dt))) [today - (days - 1)..today]
      = map (\<lambda>dt. (dt, sum_rows (get_logs_for_date d u dt))) [today - (days - 1)..today]"
    by (intro map_cong) (simp_all add: get_logs_for_date_past [OF assms])
  then show same: "get_history d' today u days = get_history d today u days"
    by (simp add: get_history_cases)
  {
    fix rows assume "get_history d' today u days = Inr rows"
    with same have "get_history d today u days = Inr rows" by simp
    then show r: "rows = map (\<lambda>dt. (dt, sum_rows (get_logs_for_date d u dt)))
                       [today - (days - 1)..today]"
      by (simp add: get_history_cases split: if_splits)
    from r show "map fst rows = [today - (days - 1)..today]"
      by (simp add: comp_def)
    from r show "length rows = nat days" by simp
  }
  assume "1 \<le> days \<and> date_min \<le> today - (days - 1) \<and> today \<le> date_max"
  then have "get_history d' today u days
               = Inr (map (\<lambda>dt. (dt, sum_rows (get_logs_for_date d' u dt)))
                        [today - (days - 1)..today])"
    by (intro get_history_in_range) simp_all
  then show "\<exists>rows. get_history d' today u days = Inr rows" by blast
qed

theorem get_history_ignores_future_witness:
  "filter (\<lambda>e. l_entry_date e \<le> 739924) (logs example_db)
     = filter (\<lambda>e. l_entry_date e \<le> 739924) (logs (delete_log example_db 1 5))
   \<and> logs example_db \<noteq> logs (delete_log example_db 1 5)
   \<and> get_history example_db 739924 1 7 = get_history (delete_log example_db 1 5) 739924 1 7
   \<and> (\<exists>rows. get_history example_db 739924 1 7 = Inr rows
         \<and> map fst rows = [739918, 739919, 739920, 739921, 739922, 739923, 739924])"
proof -
  have h: "filter (\<lambda>e. l_entry_date e \<le> 739924) (logs example_db)
     = filter (\<lambda>e. l_entry_date e \<le> 739924) (logs (delete_log example_db 1 5))"
    by code_simp
  have n: "logs example_db \<noteq> logs (delete_log example_db 1 5)"
    by code_simp
  have r: "(1::int) \<le> 7 \<and> date_min \<le> 739924 - (7 - 1) \<and> 739924 \<le> date_max"
    by (simp add: date_min_def date_max_def)
  have days: "[739924 - (7 - 1)..739924]
                = [739918, 739919, 739920, 739921, 739922, 739923, 739924 :: int]"
    by code_simp
  note t = get_history_ignores_future [OF h, of 1 7]
  from t have same: "get_history example_db 739924 1 7
                      = get_history (delete_log example_db 1 5) 739924 1 7"
    by blast
  from t r obtain rows where rows: "get_history example_db 739924 1 7 = Inr rows"
    by blast
  with t have "map fst rows = [739924 - (7 - 1)..739924]" by blast
  with days have "map fst rows = [739918, 739919, 739920, 739921, 739922, 739923, 739924]"
    by simp
  with rows have "\<exists>rows. get_history example_db 739924 1 7 = Inr rows
         \<and> map fst rows = [739918, 739919, 739920, 739921, 739922, 739923, 739924]"
    by (intro exI [of _ rows] conjI)
  with h n same show ?thesis by (intro conjI)
qed

end
